theory Spec2Isabelle
  imports Main "HOL-Library.Word"
begin

section \<open>Data model of \<open>OscillatorDetector.hpp\<close>\<close>

text \<open>
  The class holds two anonymous structs. \<open>uint8_t\<close> fields are \<open>8 word\<close> (so \<open>+ 1\<close>
  wraps at 256 and \<open><\<close> is the unsigned comparison), \<open>int64_t\<close> positions are
  \<open>64 word\<close> and the \<open>int\<close> direction is \<open>32 word\<close> (a 32-bit \<open>int\<close>; the code only
  compares and stores it); both signed types are compared with the signed orders
  \<open>\<le>s\<close> and \<open><s\<close>.
\<close>

type_synonym uint8_t = "8 word"
type_synonym int64_t = "64 word"
type_synonym int_t = "32 word"

record params =
  smootherThreshold :: uint8_t
  sensitivity :: uint8_t

record internals =
  extremaCounter :: uint8_t
  lastDirection :: int_t
  minFoundPos :: int64_t
  maxFoundPos :: int64_t
  minimumDebounceCounter :: uint8_t
  maximumDebounceCounter :: uint8_t

record OscillatorDetector =
  m_params :: params
  m_internals :: internals

text \<open>\<open>std::numeric_limits<int64_t>::min()\<close> and \<open>max()\<close>.\<close>

definition INT64_MIN :: int64_t where
  "INT64_MIN = 0x8000000000000000"

definition INT64_MAX :: int64_t where
  "INT64_MAX = 0x7FFFFFFFFFFFFFFF"

text \<open>The default member initialisers of the two structs, and the defaulted constructor.\<close>

definition params_default :: params where
  "params_default = \<lparr>smootherThreshold = 5, sensitivity = 5\<rparr>"

definition internals_default :: internals where
  "internals_default =
     \<lparr>extremaCounter = 0, lastDirection = 0, minFoundPos = INT64_MAX,
      maxFoundPos = INT64_MIN, minimumDebounceCounter = 0, maximumDebounceCounter = 0\<rparr>"

definition OscillatorDetector_new :: OscillatorDetector where
  "OscillatorDetector_new = \<lparr>m_params = params_default, m_internals = internals_default\<rparr>"

section \<open>Setters and getters\<close>

definition setSmootherThreshold :: "uint8_t \<Rightarrow> OscillatorDetector \<Rightarrow> OscillatorDetector" where
  "setSmootherThreshold threshold det =
     det\<lparr>m_params := (m_params det)\<lparr>smootherThreshold := threshold\<rparr>\<rparr>"

definition setSensitivity :: "uint8_t \<Rightarrow> OscillatorDetector \<Rightarrow> OscillatorDetector" where
  "setSensitivity s det = det\<lparr>m_params := (m_params det)\<lparr>sensitivity := s\<rparr>\<rparr>"

definition getSmootherThreshold :: "OscillatorDetector \<Rightarrow> uint8_t" where
  "getSmootherThreshold det = smootherThreshold (m_params det)"

definition getSensitivity :: "OscillatorDetector \<Rightarrow> uint8_t" where
  "getSensitivity det = sensitivity (m_params det)"

section \<open>\<open>detect\<close>\<close>

text \<open>The two candidate predicates, computed from the state before any update.\<close>

definition maximumFound :: "internals \<Rightarrow> int_t \<Rightarrow> bool" where
  "maximumFound i direction = (0 <s lastDirection i \<and> direction \<le>s 0)"

definition minimumFound :: "internals \<Rightarrow> int_t \<Rightarrow> bool" where
  "minimumFound i direction = (lastDirection i <s 0 \<and> 0 \<le>s direction)"

text \<open>
  The condition \<open>maxFoundPos <= position && maximumDebounceCounter++ == 0\<close>: the
  right operand, and with it the post-increment, is evaluated only when the left one
  holds. The result is the value of the condition and the state after evaluating it.
\<close>

definition maximum_confirm_cond :: "int64_t \<Rightarrow> internals \<Rightarrow> bool \<times> internals" where
  "maximum_confirm_cond position i =
     (if maxFoundPos i \<le>s position
      then (maximumDebounceCounter i = 0,
            i\<lparr>maximumDebounceCounter := maximumDebounceCounter i + 1\<rparr>)
      else (False, i))"

definition minimum_confirm_cond :: "int64_t \<Rightarrow> internals \<Rightarrow> bool \<times> internals" where
  "minimum_confirm_cond position i =
     (if position \<le>s minFoundPos i
      then (minimumDebounceCounter i = 0,
            i\<lparr>minimumDebounceCounter := minimumDebounceCounter i + 1\<rparr>)
      else (False, i))"

text \<open>The body of \<open>if (maximumFound)\<close>, on the internals and the \<open>reset\<close> flag.\<close>

definition maximum_branch :: "params \<Rightarrow> int64_t \<Rightarrow> internals \<times> bool \<Rightarrow> internals \<times> bool" where
  "maximum_branch p position st =
     (case st of (i, reset) \<Rightarrow>
        (case maximum_confirm_cond position i of (c, i1) \<Rightarrow>
           if c then
             (i1\<lparr>extremaCounter := extremaCounter i1 + 1,
                 maxFoundPos := position,
                 minimumDebounceCounter := 0\<rparr>, reset)
           else if maxFoundPos i1 \<le>s position then
             (i1\<lparr>maxFoundPos := position\<rparr>, reset)
           else if smootherThreshold p < maximumDebounceCounter i1 then
             (i1, True)
           else (i1, reset)))"

definition minimum_branch :: "params \<Rightarrow> int64_t \<Rightarrow> internals \<times> bool \<Rightarrow> internals \<times> bool" where
  "minimum_branch p position st =
     (case st of (i, reset) \<Rightarrow>
        (case minimum_confirm_cond position i of (c, i1) \<Rightarrow>
           if c then
             (i1\<lparr>extremaCounter := extremaCounter i1 + 1,
                 minFoundPos := position,
                 maximumDebounceCounter := 0\<rparr>, reset)
           else if position \<le>s minFoundPos i1 then
             (i1\<lparr>minFoundPos := position\<rparr>, reset)
           else if smootherThreshold p < minimumDebounceCounter i1 then
             (i1, True)
           else (i1, reset)))"

text \<open>
  The two \<open>if\<close> blocks in sequence: the internals and the \<open>reset\<close> flag as they stand
  just before \<open>if (reset)\<close>.
\<close>

definition detect_branches :: "OscillatorDetector \<Rightarrow> int64_t \<Rightarrow> int_t \<Rightarrow> internals \<times> bool" where
  "detect_branches det position direction =
     (let i0 = m_internals det;
          p = m_params det;
          st0 = (i0, False);
          st1 = (if maximumFound i0 direction then maximum_branch p position st0 else st0);
          st2 = (if minimumFound i0 direction then minimum_branch p position st1 else st1)
      in st2)"

definition detect_reset :: "OscillatorDetector \<Rightarrow> int64_t \<Rightarrow> int_t \<Rightarrow> bool" where
  "detect_reset det position direction = snd (detect_branches det position direction)"

text \<open>The whole call: the returned verdict and the detector after the call.\<close>

definition detect :: "OscillatorDetector \<Rightarrow> int64_t \<Rightarrow> int_t \<Rightarrow> bool \<times> OscillatorDetector" where
  "detect det position direction =
     (case detect_branches det position direction of (i2, reset) \<Rightarrow>
        let i3 = (if reset then internals_default else i2);
            i4 = i3\<lparr>lastDirection := direction\<rparr>
        in (sensitivity (m_params det) < extremaCounter i4, det\<lparr>m_internals := i4\<rparr>))"

text \<open>
  A caller feeding a sequence of samples \<open>(position, direction)\<close> to one detector:
  the verdicts in call order, and the detector after the last call.
\<close>

fun detect_all :: "OscillatorDetector \<Rightarrow> (int64_t \<times> int_t) list \<Rightarrow> bool list" where
  "detect_all det [] = []"
| "detect_all det ((position, direction) # xs) =
     fst (detect det position direction) # detect_all (snd (detect det position direction)) xs"

fun detect_final :: "OscillatorDetector \<Rightarrow> (int64_t \<times> int_t) list \<Rightarrow> OscillatorDetector" where
  "detect_final det [] = det"
| "detect_final det ((position, direction) # xs) =
     detect_final (snd (detect det position direction)) xs"

text \<open>
  Two short runs on a freshly constructed detector, used as concrete inputs below:
  a rise to a peak at 10 followed by a trough at 5, and its mirror image.
\<close>

abbreviation peak_then_trough :: OscillatorDetector where
  "peak_then_trough \<equiv> detect_final OscillatorDetector_new [(0, 1), (10, - 1), (5, 1)]"

abbreviation trough_then_peak :: OscillatorDetector where
  "trough_then_peak \<equiv>
     detect_final OscillatorDetector_new [(0, - 1), (- 10, 1), (- 5, - 1)]"

abbreviation twitchy_peak_then_trough :: OscillatorDetector where
  "twitchy_peak_then_trough \<equiv>
     detect_final (setSmootherThreshold 0 OscillatorDetector_new)
       [(0, 1), (10, - 1), (5, 1)]"

text \<open>
  With \<open>smootherThreshold = 0\<close>: a confirmed peak at 10 reached and left through a
  stationary sample, so that the signal rises again without a minimum candidate in
  between; and the mirror image.
\<close>

abbreviation twitchy_rising_again :: OscillatorDetector where
  "twitchy_rising_again \<equiv>
     detect_final (setSmootherThreshold 0 OscillatorDetector_new)
       [(0, 1), (10, 0), (11, 1)]"

abbreviation twitchy_falling_again :: OscillatorDetector where
  "twitchy_falling_again \<equiv>
     detect_final (setSmootherThreshold 0 OscillatorDetector_new)
       [(0, - 1), (- 10, 0), (- 11, - 1)]"

text \<open>
  \<open>std::clamp(v, -1, 1)\<close> on an \<open>int\<close>: a value below \<open>-1\<close> becomes \<open>-1\<close>, a value
  above \<open>1\<close> becomes \<open>1\<close>, and \<open>-1\<close>, \<open>0\<close>, \<open>1\<close> are kept.
\<close>

definition clamp_direction :: "int_t \<Rightarrow> int_t" where
  "clamp_direction v = (if v <s - 1 then - 1 else if 1 <s v then 1 else v)"

text \<open>
  Properties of a run of calls: no call of the run is a maximum candidate (is a minimum
  candidate, sets the \<open>reset\<close> flag).
\<close>

fun no_maximum_candidate :: "OscillatorDetector \<Rightarrow> (int64_t \<times> int_t) list \<Rightarrow> bool" where
  "no_maximum_candidate det [] = True"
| "no_maximum_candidate det ((position, direction) # xs) =
     (\<not> maximumFound (m_internals det) direction \<and>
      no_maximum_candidate (snd (detect det position direction)) xs)"

fun no_minimum_candidate :: "OscillatorDetector \<Rightarrow> (int64_t \<times> int_t) list \<Rightarrow> bool" where
  "no_minimum_candidate det [] = True"
| "no_minimum_candidate det ((position, direction) # xs) =
     (\<not> minimumFound (m_internals det) direction \<and>
      no_minimum_candidate (snd (detect det position direction)) xs)"

fun no_reset :: "OscillatorDetector \<Rightarrow> (int64_t \<times> int_t) list \<Rightarrow> bool" where
  "no_reset det [] = True"
| "no_reset det ((position, direction) # xs) =
     (\<not> detect_reset det position direction \<and>
      no_reset (snd (detect det position direction)) xs)"

text \<open>One side of the state still holds its sentinel and a zero debounce counter.\<close>

definition max_sentinel :: "internals \<Rightarrow> bool" where
  "max_sentinel i = (maxFoundPos i = INT64_MIN \<and> maximumDebounceCounter i = 0)"

definition min_sentinel :: "internals \<Rightarrow> bool" where
  "min_sentinel i = (minFoundPos i = INT64_MAX \<and> minimumDebounceCounter i = 0)"

section \<open>Basic facts about the branches\<close>

lemmas concrete_defs =
  detect_def detect_branches_def detect_reset_def maximum_branch_def minimum_branch_def
  maximum_confirm_cond_def minimum_confirm_cond_def maximumFound_def minimumFound_def
  internals_default_def params_default_def OscillatorDetector_new_def
  INT64_MIN_def INT64_MAX_def setSmootherThreshold_def setSensitivity_def
  getSmootherThreshold_def getSensitivity_def
  Let_def word_sless_alt word_sle_eq

lemma candidates_exclusive: "maximumFound i d \<Longrightarrow> \<not> minimumFound i d"
  by (simp add: maximumFound_def minimumFound_def word_sless_alt)

lemma detect_branches_maximum:
  "maximumFound (m_internals det) d \<Longrightarrow>
   detect_branches det p d = maximum_branch (m_params det) p (m_internals det, False)"
  by (simp add: detect_branches_def Let_def candidates_exclusive)

lemma detect_branches_minimum:
  "minimumFound (m_internals det) d \<Longrightarrow>
   detect_branches det p d = minimum_branch (m_params det) p (m_internals det, False)"
  using candidates_exclusive [of "m_internals det" d]
  by (auto simp add: detect_branches_def Let_def)

lemma detect_branches_none:
  "\<not> maximumFound (m_internals det) d \<Longrightarrow> \<not> minimumFound (m_internals det) d \<Longrightarrow>
   detect_branches det p d = (m_internals det, False)"
  by (simp add: detect_branches_def Let_def)

lemma maximum_branch_below:
  "p <s maxFoundPos i \<Longrightarrow>
   maximum_branch pr p (i, r) = (i, r \<or> smootherThreshold pr < maximumDebounceCounter i)"
  by (simp add: maximum_branch_def maximum_confirm_cond_def word_sless_alt word_sle_eq)

lemma minimum_branch_above:
  "minFoundPos i <s p \<Longrightarrow>
   minimum_branch pr p (i, r) = (i, r \<or> smootherThreshold pr < minimumDebounceCounter i)"
  by (simp add: minimum_branch_def minimum_confirm_cond_def word_sless_alt word_sle_eq)

lemma maximum_branch_confirm:
  "maxFoundPos i \<le>s p \<Longrightarrow> maximumDebounceCounter i = 0 \<Longrightarrow>
   maximum_branch pr p (i, r) =
     (i\<lparr>extremaCounter := extremaCounter i + 1, maxFoundPos := p,
         minimumDebounceCounter := 0, maximumDebounceCounter := 1\<rparr>, r)"
  by (simp add: maximum_branch_def maximum_confirm_cond_def)

lemma minimum_branch_confirm:
  "p \<le>s minFoundPos i \<Longrightarrow> minimumDebounceCounter i = 0 \<Longrightarrow>
   minimum_branch pr p (i, r) =
     (i\<lparr>extremaCounter := extremaCounter i + 1, minFoundPos := p,
         minimumDebounceCounter := 1, maximumDebounceCounter := 0\<rparr>, r)"
  by (simp add: minimum_branch_def minimum_confirm_cond_def)

lemma maximum_branch_advance:
  "maxFoundPos i \<le>s p \<Longrightarrow> maximumDebounceCounter i \<noteq> 0 \<Longrightarrow>
   maximum_branch pr p (i, r) =
     (i\<lparr>maxFoundPos := p, maximumDebounceCounter := maximumDebounceCounter i + 1\<rparr>, r)"
  by (simp add: maximum_branch_def maximum_confirm_cond_def)

lemma minimum_branch_advance:
  "p \<le>s minFoundPos i \<Longrightarrow> minimumDebounceCounter i \<noteq> 0 \<Longrightarrow>
   minimum_branch pr p (i, r) =
     (i\<lparr>minFoundPos := p, minimumDebounceCounter := minimumDebounceCounter i + 1\<rparr>, r)"
  by (simp add: minimum_branch_def minimum_confirm_cond_def)

text \<open>What each branch can do to the two reference positions and to the other side's counter.\<close>

lemma minimum_branch_max_side:
  "minimum_branch pr p (i, r) = (i', r') \<Longrightarrow>
   maxFoundPos i' = maxFoundPos i \<and>
   (maximumDebounceCounter i' = maximumDebounceCounter i \<or> maximumDebounceCounter i' = 0)"
  by (auto simp add: minimum_branch_def minimum_confirm_cond_def split: if_splits)

lemma maximum_branch_min_side:
  "maximum_branch pr p (i, r) = (i', r') \<Longrightarrow>
   minFoundPos i' = minFoundPos i \<and>
   (minimumDebounceCounter i' = minimumDebounceCounter i \<or> minimumDebounceCounter i' = 0)"
  by (auto simp add: maximum_branch_def maximum_confirm_cond_def split: if_splits)

lemma maximum_branch_max_side:
  "maximum_branch pr p (i, r) = (i', r') \<Longrightarrow>
   maxFoundPos i' = maxFoundPos i \<or> (maxFoundPos i \<le>s p \<and> maxFoundPos i' = p)"
  by (auto simp add: maximum_branch_def maximum_confirm_cond_def split: if_splits)

lemma minimum_branch_min_side:
  "minimum_branch pr p (i, r) = (i', r') \<Longrightarrow>
   minFoundPos i' = minFoundPos i \<or> (p \<le>s minFoundPos i \<and> minFoundPos i' = p)"
  by (auto simp add: minimum_branch_def minimum_confirm_cond_def split: if_splits)

lemma peak_then_trough_state:
  "peak_then_trough =
     \<lparr>m_params = params_default,
      m_internals = \<lparr>extremaCounter = 2, lastDirection = 1, minFoundPos = 5,
        maxFoundPos = 10, minimumDebounceCounter = 1, maximumDebounceCounter = 0\<rparr>\<rparr>"
  by (simp add: concrete_defs)

lemma trough_then_peak_state:
  "trough_then_peak =
     \<lparr>m_params = params_default,
      m_internals = \<lparr>extremaCounter = 2, lastDirection = - 1, minFoundPos = - 10,
        maxFoundPos = - 5, minimumDebounceCounter = 0, maximumDebounceCounter = 1\<rparr>\<rparr>"
  by (simp add: concrete_defs)

lemma twitchy_peak_then_trough_state:
  "twitchy_peak_then_trough =
     \<lparr>m_params = \<lparr>smootherThreshold = 0, sensitivity = 5\<rparr>,
      m_internals = \<lparr>extremaCounter = 2, lastDirection = 1, minFoundPos = 5,
        maxFoundPos = 10, minimumDebounceCounter = 1, maximumDebounceCounter = 0\<rparr>\<rparr>"
  by (simp add: concrete_defs)

lemma twitchy_rising_again_state:
  "twitchy_rising_again =
     \<lparr>m_params = \<lparr>smootherThreshold = 0, sensitivity = 5\<rparr>,
      m_internals = \<lparr>extremaCounter = 1, lastDirection = 1, minFoundPos = INT64_MAX,
        maxFoundPos = 10, minimumDebounceCounter = 0, maximumDebounceCounter = 1\<rparr>\<rparr>"
  by (simp add: concrete_defs)

lemma twitchy_falling_again_state:
  "twitchy_falling_again =
     \<lparr>m_params = \<lparr>smootherThreshold = 0, sensitivity = 5\<rparr>,
      m_internals = \<lparr>extremaCounter = 1, lastDirection = - 1, minFoundPos = - 10,
        maxFoundPos = INT64_MIN, minimumDebounceCounter = 1, maximumDebounceCounter = 0\<rparr>\<rparr>"
  by (simp add: concrete_defs)

lemma detect_internals:
  "m_internals (snd (detect det p d)) =
     (if detect_reset det p d then internals_default
      else fst (detect_branches det p d))\<lparr>lastDirection := d\<rparr>"
  by (cases "detect_branches det p d") (simp add: detect_reset_def detect_def Let_def)

lemma detect_params: "m_params (snd (detect det p d)) = m_params det"
  by (cases "detect_branches det p d") (simp add: detect_def Let_def)

lemma INT64_MIN_least: "INT64_MIN \<le>s p"
  using sint_ge [of p] by (simp add: INT64_MIN_def word_sle_eq)

lemma INT64_MAX_greatest: "p \<le>s INT64_MAX"
  using sint_lt [of p] by (simp add: INT64_MAX_def word_sle_eq)

section \<open>Non-advancing candidates within the debounce budget\<close>

text \<open>
  C1 as stated: a maximum candidate strictly below \<open>maxFoundPos\<close> with
  \<open>maximumDebounceCounter \<le> smootherThreshold\<close> stores \<open>counter + 1\<close>. It does not:
  after a peak at 10 and a trough at 5, the maximum candidate at 7 satisfies all three
  conditions and the counter keeps its value 0.
\<close>

theorem nonadvancing_candidate_increment_counterexample:
  "maximumFound (m_internals peak_then_trough) (- 1) \<and>
   7 <s maxFoundPos (m_internals peak_then_trough) \<and>
   maximumDebounceCounter (m_internals peak_then_trough)
     \<le> smootherThreshold (m_params peak_then_trough) \<and>
   maximumDebounceCounter (m_internals (snd (detect peak_then_trough 7 (- 1))))
     \<noteq> maximumDebounceCounter (m_internals peak_then_trough) + 1"
  unfolding peak_then_trough_state by (simp add: concrete_defs)

text \<open>
  C1 as amended: the post-increment is the right operand of \<open>&&\<close> and is evaluated
  only when \<open>maxFoundPos <= position\<close>. A maximum candidate strictly below
  \<open>maxFoundPos\<close> whose counter is at most \<open>smootherThreshold\<close> leaves
  \<open>maximumDebounceCounter\<close>, \<open>extremaCounter\<close> and \<open>maxFoundPos\<close> unchanged;
  symmetrically for a minimum candidate strictly above \<open>minFoundPos\<close>.
\<close>

theorem nonadvancing_candidate_keeps_counters:
  "(maximumFound (m_internals det) d \<and> position <s maxFoundPos (m_internals det) \<and>
    maximumDebounceCounter (m_internals det) \<le> smootherThreshold (m_params det) \<longrightarrow>
      maximumDebounceCounter (m_internals (snd (detect det position d)))
        = maximumDebounceCounter (m_internals det) \<and>
      extremaCounter (m_internals (snd (detect det position d)))
        = extremaCounter (m_internals det) \<and>
      maxFoundPos (m_internals (snd (detect det position d)))
        = maxFoundPos (m_internals det)) \<and>
   (minimumFound (m_internals det) d \<and> minFoundPos (m_internals det) <s position \<and>
    minimumDebounceCounter (m_internals det) \<le> smootherThreshold (m_params det) \<longrightarrow>
      minimumDebounceCounter (m_internals (snd (detect det position d)))
        = minimumDebounceCounter (m_internals det) \<and>
      extremaCounter (m_internals (snd (detect det position d)))
        = extremaCounter (m_internals det) \<and>
      minFoundPos (m_internals (snd (detect det position d)))
        = minFoundPos (m_internals det))"
  by (simp add: detect_def detect_branches_maximum detect_branches_minimum
      maximum_branch_below minimum_branch_above Let_def not_less [symmetric])

theorem nonadvancing_candidate_keeps_counters_witness:
  "(maximumFound (m_internals peak_then_trough) (- 1) \<and>
    7 <s maxFoundPos (m_internals peak_then_trough) \<and>
    maximumDebounceCounter (m_internals peak_then_trough)
      \<le> smootherThreshold (m_params peak_then_trough) \<and>
    maximumDebounceCounter (m_internals (snd (detect peak_then_trough 7 (- 1)))) = 0 \<and>
    extremaCounter (m_internals (snd (detect peak_then_trough 7 (- 1)))) = 2 \<and>
    maxFoundPos (m_internals (snd (detect peak_then_trough 7 (- 1)))) = 10) \<and>
   (minimumFound (m_internals trough_then_peak) 1 \<and>
    minFoundPos (m_internals trough_then_peak) <s - 7 \<and>
    minimumDebounceCounter (m_internals trough_then_peak)
      \<le> smootherThreshold (m_params trough_then_peak) \<and>
    minimumDebounceCounter (m_internals (snd (detect trough_then_peak (- 7) 1))) = 0 \<and>
    extremaCounter (m_internals (snd (detect trough_then_peak (- 7) 1))) = 2 \<and>
    minFoundPos (m_internals (snd (detect trough_then_peak (- 7) 1))) = - 10)"
proof -
  have hmax:
    "maximumFound (m_internals peak_then_trough) (- 1) \<and>
     7 <s maxFoundPos (m_internals peak_then_trough) \<and>
     maximumDebounceCounter (m_internals peak_then_trough)
       \<le> smootherThreshold (m_params peak_then_trough)"
    unfolding peak_then_trough_state
    by (simp add: maximumFound_def params_default_def word_sless_alt word_sle_eq)
  have hmin:
    "minimumFound (m_internals trough_then_peak) 1 \<and>
     minFoundPos (m_internals trough_then_peak) <s - 7 \<and>
     minimumDebounceCounter (m_internals trough_then_peak)
       \<le> smootherThreshold (m_params trough_then_peak)"
    unfolding trough_then_peak_state
    by (simp add: minimumFound_def params_default_def word_sless_alt word_sle_eq)
  have before_max:
    "maximumDebounceCounter (m_internals peak_then_trough) = 0 \<and>
     extremaCounter (m_internals peak_then_trough) = 2 \<and>
     maxFoundPos (m_internals peak_then_trough) = 10"
    unfolding peak_then_trough_state by simp
  have before_min:
    "minimumDebounceCounter (m_internals trough_then_peak) = 0 \<and>
     extremaCounter (m_internals trough_then_peak) = 2 \<and>
     minFoundPos (m_internals trough_then_peak) = - 10"
    unfolding trough_then_peak_state by simp
  from nonadvancing_candidate_keeps_counters [of peak_then_trough "- 1" 7] hmax before_max
  have cmax:
    "maximumDebounceCounter (m_internals (snd (detect peak_then_trough 7 (- 1)))) = 0 \<and>
     extremaCounter (m_internals (snd (detect peak_then_trough 7 (- 1)))) = 2 \<and>
     maxFoundPos (m_internals (snd (detect peak_then_trough 7 (- 1)))) = 10"
    by metis
  from nonadvancing_candidate_keeps_counters [of trough_then_peak 1 "- 7"] hmin before_min
  have cmin:
    "minimumDebounceCounter (m_internals (snd (detect trough_then_peak (- 7) 1))) = 0 \<and>
     extremaCounter (m_internals (snd (detect trough_then_peak (- 7) 1))) = 2 \<and>
     minFoundPos (m_internals (snd (detect trough_then_peak (- 7) 1))) = - 10"
    by metis
  from hmax hmin cmax cmin show ?thesis by blast
qed

section \<open>Out-of-range directions\<close>

lemma clamp_direction_sle0: "(clamp_direction d \<le>s 0) = (d \<le>s 0)"
  by (simp add: clamp_direction_def word_sless_alt word_sle_eq)

lemma clamp_direction_sge0: "(0 \<le>s clamp_direction d) = (0 \<le>s d)"
  by (simp add: clamp_direction_def word_sless_alt word_sle_eq)

lemma candidates_clamp_direction:
  "maximumFound i (clamp_direction d) = maximumFound i d"
  "minimumFound i (clamp_direction d) = minimumFound i d"
  by (simp_all add: maximumFound_def minimumFound_def clamp_direction_sle0 clamp_direction_sge0)

lemma detect_branches_clamp_direction:
  "detect_branches det p (clamp_direction d) = detect_branches det p d"
  by (simp add: detect_branches_def candidates_clamp_direction)

text \<open>
  C2 as stated: with a direction other than \<open>-1\<close>, \<open>0\<close>, \<open>+1\<close> neither candidate
  predicate triggers and the call behaves as for a stationary signal. Both parts fail.
  After a rise, \<open>direction = -5\<close> is a maximum candidate; after a fall, \<open>direction = 5\<close>
  is a minimum candidate. And after a rise, \<open>direction = 5\<close> at position 20 confirms
  nothing, while a stationary sample \<open>direction = 0\<close> there confirms a maximum.
\<close>

theorem out_of_range_direction_counterexample:
  "(- 5 :: int_t) \<notin> {- 1, 0, 1} \<and>
   maximumFound (m_internals peak_then_trough) (- 5) \<and>
   (5 :: int_t) \<notin> {- 1, 0, 1} \<and>
   minimumFound (m_internals trough_then_peak) 5 \<and>
   extremaCounter (m_internals (snd (detect peak_then_trough 20 5))) = 2 \<and>
   extremaCounter (m_internals (snd (detect peak_then_trough 20 0))) = 3"
  unfolding peak_then_trough_state trough_then_peak_state by (simp add: concrete_defs)

text \<open>
  C2 as amended: the predicates compare \<open>direction\<close> with 0 only, so a direction
  other than \<open>-1\<close>, \<open>0\<close>, \<open>+1\<close> acts as its sign (\<open>+1\<close> when positive, \<open>-1\<close> when
  negative): both candidate predicates, the returned verdict and every field of the
  resulting state except \<open>lastDirection\<close> are those of the call with the clamped
  direction, and \<open>lastDirection\<close> stores the direction as given.
\<close>

theorem out_of_range_direction_acts_as_sign:
  "d \<notin> {- 1, 0, 1} \<Longrightarrow>
   maximumFound (m_internals det) d = maximumFound (m_internals det) (clamp_direction d) \<and>
   minimumFound (m_internals det) d = minimumFound (m_internals det) (clamp_direction d) \<and>
   fst (detect det p d) = fst (detect det p (clamp_direction d)) \<and>
   snd (detect det p d) =
     (snd (detect det p (clamp_direction d)))
       \<lparr>m_internals :=
          (m_internals (snd (detect det p (clamp_direction d))))\<lparr>lastDirection := d\<rparr>\<rparr>"
  by (simp add: candidates_clamp_direction detect_def detect_branches_clamp_direction Let_def
      split: prod.split)

theorem out_of_range_direction_acts_as_sign_witness:
  "(5 :: int_t) \<notin> {- 1, 0, 1} \<and> clamp_direction 5 = 1 \<and>
   minimumFound (m_internals trough_then_peak) 5 = minimumFound (m_internals trough_then_peak) 1 \<and>
   fst (detect trough_then_peak 0 5) = fst (detect trough_then_peak 0 1) \<and>
   snd (detect trough_then_peak 0 5) =
     (snd (detect trough_then_peak 0 1))
       \<lparr>m_internals := (m_internals (snd (detect trough_then_peak 0 1)))\<lparr>lastDirection := 5\<rparr>\<rparr>"
proof -
  have h: "(5 :: int_t) \<notin> {- 1, 0, 1}" by simp
  have c: "clamp_direction 5 = 1"
    by (simp add: clamp_direction_def word_sless_alt)
  from out_of_range_direction_acts_as_sign [OF h, where det = trough_then_peak and p = 0] h c
  show ?thesis by simp
qed

section \<open>Zero smoother threshold\<close>

text \<open>
  C3 as stated: with \<open>smootherThreshold = 0\<close> every non-advancing candidate resets,
  whatever the debounce counter. It does not when the counter is 0: after a peak at 10
  and a trough at 5 (which clears \<open>maximumDebounceCounter\<close>), the maximum candidate at
  7 is below \<open>maxFoundPos\<close> and the state is kept.
\<close>

theorem zero_threshold_counterexample:
  "smootherThreshold (m_params twitchy_peak_then_trough) = 0 \<and>
   maximumFound (m_internals twitchy_peak_then_trough) (- 1) \<and>
   7 <s maxFoundPos (m_internals twitchy_peak_then_trough) \<and>
   \<not> detect_reset twitchy_peak_then_trough 7 (- 1) \<and>
   maxFoundPos (m_internals (snd (detect twitchy_peak_then_trough 7 (- 1)))) = 10 \<and>
   extremaCounter (m_internals (snd (detect twitchy_peak_then_trough 7 (- 1)))) = 2"
  unfolding twitchy_peak_then_trough_state by (simp add: concrete_defs)

text \<open>
  C3 as amended: the test is the strict \<open>maximumDebounceCounter > smootherThreshold\<close>,
  so with \<open>smootherThreshold = 0\<close> a maximum candidate strictly below \<open>maxFoundPos\<close>
  sets the \<open>reset\<close> flag exactly when \<open>maximumDebounceCounter\<close> is not 0;
  symmetrically for a minimum candidate strictly above \<open>minFoundPos\<close>.
\<close>

theorem zero_threshold_reset_iff_counter_nonzero:
  "smootherThreshold (m_params det) = 0 \<Longrightarrow>
   (maximumFound (m_internals det) d \<and> p <s maxFoundPos (m_internals det) \<longrightarrow>
      detect_reset det p d = (maximumDebounceCounter (m_internals det) \<noteq> 0)) \<and>
   (minimumFound (m_internals det) d \<and> minFoundPos (m_internals det) <s p \<longrightarrow>
      detect_reset det p d = (minimumDebounceCounter (m_internals det) \<noteq> 0))"
  by (simp add: detect_reset_def detect_branches_maximum detect_branches_minimum
      maximum_branch_below minimum_branch_above word_greater_zero_iff)

theorem zero_threshold_reset_iff_counter_nonzero_witness:
  "(smootherThreshold (m_params twitchy_rising_again) = 0 \<and>
    maximumFound (m_internals twitchy_rising_again) (- 1) \<and>
    5 <s maxFoundPos (m_internals twitchy_rising_again) \<and>
    maximumDebounceCounter (m_internals twitchy_rising_again) = 1 \<and>
    detect_reset twitchy_rising_again 5 (- 1)) \<and>
   (smootherThreshold (m_params twitchy_falling_again) = 0 \<and>
    minimumFound (m_internals twitchy_falling_again) 1 \<and>
    minFoundPos (m_internals twitchy_falling_again) <s - 5 \<and>
    minimumDebounceCounter (m_internals twitchy_falling_again) = 1 \<and>
    detect_reset twitchy_falling_again (- 5) 1)"
proof -
  have hmax:
    "smootherThreshold (m_params twitchy_rising_again) = 0"
    "maximumFound (m_internals twitchy_rising_again) (- 1) \<and>
     5 <s maxFoundPos (m_internals twitchy_rising_again)"
    "maximumDebounceCounter (m_internals twitchy_rising_again) = 1"
    unfolding twitchy_rising_again_state
    by (simp_all add: maximumFound_def word_sless_alt word_sle_eq)
  have hmin:
    "smootherThreshold (m_params twitchy_falling_again) = 0"
    "minimumFound (m_internals twitchy_falling_again) 1 \<and>
     minFoundPos (m_internals twitchy_falling_again) <s - 5"
    "minimumDebounceCounter (m_internals twitchy_falling_again) = 1"
    unfolding twitchy_falling_again_state
    by (simp_all add: minimumFound_def word_sless_alt word_sle_eq)
  from zero_threshold_reset_iff_counter_nonzero [OF hmax(1), of "- 1" 5] hmax(2,3)
  have rmax: "detect_reset twitchy_rising_again 5 (- 1)" by simp
  from zero_threshold_reset_iff_counter_nonzero [OF hmin(1), of 1 "- 5"] hmin(2,3)
  have rmin: "detect_reset twitchy_falling_again (- 5) 1" by simp
  from hmax hmin rmax rmin show ?thesis by blast
qed

section \<open>Verdict\<close>

text \<open>
  C4: for every state and every sample, \<open>detect\<close> returns true exactly when the
  value of \<open>extremaCounter\<close> after the call is strictly greater than \<open>sensitivity\<close>.
\<close>

theorem detect_returns_iff_counter_exceeds:
  "fst (detect det position direction) =
     (sensitivity (m_params (snd (detect det position direction)))
        < extremaCounter (m_internals (snd (detect det position direction))))"
  by (simp add: detect_def Let_def split: prod.split)

section \<open>Reset\<close>

text \<open>
  C5: a call that sets the \<open>reset\<close> flag leaves all six internal fields at their
  construction-time defaults, except \<open>lastDirection\<close>, which holds the \<open>direction\<close>
  argument of that call; \<open>smootherThreshold\<close> and \<open>sensitivity\<close> are unchanged.
\<close>

theorem reset_restores_defaults:
  "detect_reset det p d \<Longrightarrow>
   m_internals (snd (detect det p d)) = internals_default\<lparr>lastDirection := d\<rparr> \<and>
   m_params (snd (detect det p d)) = m_params det"
  by (simp add: detect_internals detect_params)

theorem reset_restores_defaults_witness:
  "detect_reset twitchy_rising_again 5 (- 1) \<and>
   m_internals (snd (detect twitchy_rising_again 5 (- 1)))
     = internals_default\<lparr>lastDirection := - 1\<rparr> \<and>
   m_params (snd (detect twitchy_rising_again 5 (- 1))) = m_params twitchy_rising_again"
proof -
  have r: "detect_reset twitchy_rising_again 5 (- 1)"
    unfolding twitchy_rising_again_state by (simp add: concrete_defs)
  from reset_restores_defaults [OF r] r show ?thesis by simp
qed

section \<open>First candidate after construction or reset\<close>

lemma max_sentinel_step:
  assumes "\<not> maximumFound (m_internals det) d" "max_sentinel (m_internals det)"
  shows "max_sentinel (m_internals (snd (detect det p d)))"
proof (cases "minimumFound (m_internals det) d")
  case False
  with assms show ?thesis
    by (simp add: detect_internals detect_reset_def detect_branches_none max_sentinel_def)
next
  case True
  obtain i' r' where br: "minimum_branch (m_params det) p (m_internals det, False) = (i', r')"
    by (cases "minimum_branch (m_params det) p (m_internals det, False)")
  from minimum_branch_max_side [OF br] assms(2) have "max_sentinel i'"
    by (auto simp add: max_sentinel_def)
  with True br show ?thesis
    by (simp add: detect_internals detect_reset_def detect_branches_minimum max_sentinel_def
        internals_default_def)
qed

lemma min_sentinel_step:
  assumes "\<not> minimumFound (m_internals det) d" "min_sentinel (m_internals det)"
  shows "min_sentinel (m_internals (snd (detect det p d)))"
proof (cases "maximumFound (m_internals det) d")
  case False
  with assms show ?thesis
    by (simp add: detect_internals detect_reset_def detect_branches_none min_sentinel_def)
next
  case True
  obtain i' r' where br: "maximum_branch (m_params det) p (m_internals det, False) = (i', r')"
    by (cases "maximum_branch (m_params det) p (m_internals det, False)")
  from maximum_branch_min_side [OF br] assms(2) have "min_sentinel i'"
    by (auto simp add: min_sentinel_def)
  with True br show ?thesis
    by (simp add: detect_internals detect_reset_def detect_branches_maximum min_sentinel_def
        internals_default_def)
qed

lemma max_sentinel_run:
  "max_sentinel (m_internals det) \<Longrightarrow> no_maximum_candidate det xs \<Longrightarrow>
   max_sentinel (m_internals (detect_final det xs))"
proof (induction xs arbitrary: det)
  case Nil
  then show ?case by simp
next
  case (Cons x xs)
  obtain p d where x: "x = (p, d)" by (cases x)
  with Cons.prems have "max_sentinel (m_internals (snd (detect det p d)))"
    by (simp add: max_sentinel_step)
  with Cons.IH [of "snd (detect det p d)"] Cons.prems x show ?case by simp
qed

lemma min_sentinel_run:
  "min_sentinel (m_internals det) \<Longrightarrow> no_minimum_candidate det xs \<Longrightarrow>
   min_sentinel (m_internals (detect_final det xs))"
proof (induction xs arbitrary: det)
  case Nil
  then show ?case by simp
next
  case (Cons x xs)
  obtain p d where x: "x = (p, d)" by (cases x)
  with Cons.prems have "min_sentinel (m_internals (snd (detect det p d)))"
    by (simp add: min_sentinel_step)
  with Cons.IH [of "snd (detect det p d)"] Cons.prems x show ?case by simp
qed

lemma max_sentinel_confirm:
  "max_sentinel (m_internals det) \<Longrightarrow> maximumFound (m_internals det) d \<Longrightarrow>
   \<not> detect_reset det p d \<and>
   extremaCounter (m_internals (snd (detect det p d))) = extremaCounter (m_internals det) + 1 \<and>
   maxFoundPos (m_internals (snd (detect det p d))) = p"
  by (simp add: max_sentinel_def detect_internals detect_reset_def detect_branches_maximum
      maximum_branch_confirm INT64_MIN_least)

lemma min_sentinel_confirm:
  "min_sentinel (m_internals det) \<Longrightarrow> minimumFound (m_internals det) d \<Longrightarrow>
   \<not> detect_reset det p d \<and>
   extremaCounter (m_internals (snd (detect det p d))) = extremaCounter (m_internals det) + 1 \<and>
   minFoundPos (m_internals (snd (detect det p d))) = p"
  by (simp add: min_sentinel_def detect_internals detect_reset_def detect_branches_minimum
      minimum_branch_confirm INT64_MAX_greatest)

text \<open>
  C6: start from a detector whose internals are the defaults up to \<open>lastDirection\<close>
  (as after construction, or after a resetting call), and let any calls follow of which
  none is a maximum candidate. Then the next maximum candidate is confirmed whatever its
  64-bit position: the \<open>reset\<close> flag stays clear, \<open>extremaCounter\<close> is incremented and
  \<open>maxFoundPos\<close> becomes the position. Symmetrically for the first minimum candidate.
\<close>

theorem first_candidate_confirmed:
  "m_internals det = internals_default\<lparr>lastDirection := ld\<rparr> \<Longrightarrow>
   (no_maximum_candidate det xs \<and> maximumFound (m_internals (detect_final det xs)) d \<longrightarrow>
      \<not> detect_reset (detect_final det xs) p d \<and>
      extremaCounter (m_internals (snd (detect (detect_final det xs) p d)))
        = extremaCounter (m_internals (detect_final det xs)) + 1 \<and>
      maxFoundPos (m_internals (snd (detect (detect_final det xs) p d))) = p) \<and>
   (no_minimum_candidate det xs \<and> minimumFound (m_internals (detect_final det xs)) d \<longrightarrow>
      \<not> detect_reset (detect_final det xs) p d \<and>
      extremaCounter (m_internals (snd (detect (detect_final det xs) p d)))
        = extremaCounter (m_internals (detect_final det xs)) + 1 \<and>
      minFoundPos (m_internals (snd (detect (detect_final det xs) p d))) = p)"
proof -
  assume fresh: "m_internals det = internals_default\<lparr>lastDirection := ld\<rparr>"
  then have s: "max_sentinel (m_internals det)" "min_sentinel (m_internals det)"
    by (simp_all add: max_sentinel_def min_sentinel_def internals_default_def)
  show ?thesis
    using max_sentinel_confirm [OF max_sentinel_run [OF s(1)]]
      min_sentinel_confirm [OF min_sentinel_run [OF s(2)]]
    by blast
qed

theorem first_candidate_confirmed_witness:
  "(m_internals OscillatorDetector_new = internals_default\<lparr>lastDirection := 0\<rparr> \<and>
    no_maximum_candidate OscillatorDetector_new [(0, 1), (3, 1)] \<and>
    maximumFound (m_internals (detect_final OscillatorDetector_new [(0, 1), (3, 1)])) (- 1) \<and>
    extremaCounter (m_internals (snd (detect
        (detect_final OscillatorDetector_new [(0, 1), (3, 1)]) INT64_MIN (- 1)))) = 1 \<and>
    maxFoundPos (m_internals (snd (detect
        (detect_final OscillatorDetector_new [(0, 1), (3, 1)]) INT64_MIN (- 1)))) = INT64_MIN) \<and>
   (no_minimum_candidate OscillatorDetector_new [(0, - 1), (- 3, - 1)] \<and>
    minimumFound (m_internals (detect_final OscillatorDetector_new [(0, - 1), (- 3, - 1)])) 1 \<and>
    extremaCounter (m_internals (snd (detect
        (detect_final OscillatorDetector_new [(0, - 1), (- 3, - 1)]) INT64_MAX 1))) = 1 \<and>
    minFoundPos (m_internals (snd (detect
        (detect_final OscillatorDetector_new [(0, - 1), (- 3, - 1)]) INT64_MAX 1))) = INT64_MAX)"
proof -
  have rising:
    "detect_final OscillatorDetector_new [(0, 1), (3, 1)] =
       OscillatorDetector_new\<lparr>m_internals := internals_default\<lparr>lastDirection := 1\<rparr>\<rparr>"
    by (simp add: concrete_defs)
  have falling:
    "detect_final OscillatorDetector_new [(0, - 1), (- 3, - 1)] =
       OscillatorDetector_new\<lparr>m_internals := internals_default\<lparr>lastDirection := - 1\<rparr>\<rparr>"
    by (simp add: concrete_defs)
  have fresh: "m_internals OscillatorDetector_new = internals_default\<lparr>lastDirection := 0\<rparr>"
    by (simp add: OscillatorDetector_new_def internals_default_def)
  have nomax: "no_maximum_candidate OscillatorDetector_new [(0, 1), (3, 1)]"
    by (simp add: concrete_defs)
  have nomin: "no_minimum_candidate OscillatorDetector_new [(0, - 1), (- 3, - 1)]"
    by (simp add: concrete_defs)
  have ismax:
    "maximumFound (m_internals (detect_final OscillatorDetector_new [(0, 1), (3, 1)])) (- 1)"
    unfolding rising by (simp add: maximumFound_def word_sless_alt word_sle_eq)
  have ismin:
    "minimumFound (m_internals (detect_final OscillatorDetector_new [(0, - 1), (- 3, - 1)])) 1"
    unfolding falling by (simp add: minimumFound_def word_sless_alt word_sle_eq)
  have ec:
    "extremaCounter (m_internals (detect_final OscillatorDetector_new [(0, 1), (3, 1)])) = 0"
    "extremaCounter (m_internals (detect_final OscillatorDetector_new [(0, - 1), (- 3, - 1)])) = 0"
    unfolding rising falling by (simp_all add: internals_default_def)
  from first_candidate_confirmed [OF fresh, of "[(0, 1), (3, 1)]" "- 1" INT64_MIN] nomax ismax ec(1)
  have cmax:
    "extremaCounter (m_internals (snd (detect
        (detect_final OscillatorDetector_new [(0, 1), (3, 1)]) INT64_MIN (- 1)))) = 1 \<and>
     maxFoundPos (m_internals (snd (detect
        (detect_final OscillatorDetector_new [(0, 1), (3, 1)]) INT64_MIN (- 1)))) = INT64_MIN"
    by simp
  from first_candidate_confirmed [OF fresh, of "[(0, - 1), (- 3, - 1)]" 1 INT64_MAX] nomin ismin ec(2)
  have cmin:
    "extremaCounter (m_internals (snd (detect
        (detect_final OscillatorDetector_new [(0, - 1), (- 3, - 1)]) INT64_MAX 1))) = 1 \<and>
     minFoundPos (m_internals (snd (detect
        (detect_final OscillatorDetector_new [(0, - 1), (- 3, - 1)]) INT64_MAX 1))) = INT64_MAX"
    by simp
  from fresh nomax ismax cmax nomin ismin cmin show ?thesis by blast
qed

section \<open>Monotonic input\<close>

lemma rising_step:
  assumes "extremaCounter (m_internals det) = 0" "0 \<le>s lastDirection (m_internals det)"
  shows "detect det p 1 = (False, det\<lparr>m_internals := (m_internals det)\<lparr>lastDirection := 1\<rparr>\<rparr>)"
proof -
  have "\<not> maximumFound (m_internals det) 1"
    by (simp add: maximumFound_def word_sle_eq)
  moreover from assms(2) have "\<not> minimumFound (m_internals det) 1"
    by (simp add: minimumFound_def word_sle_eq word_sless_alt)
  ultimately show ?thesis using assms(1)
    by (simp add: detect_def detect_branches_none Let_def)
qed

lemma falling_step:
  assumes "extremaCounter (m_internals det) = 0" "lastDirection (m_internals det) \<le>s 0"
  shows "detect det p (- 1) =
           (False, det\<lparr>m_internals := (m_internals det)\<lparr>lastDirection := - 1\<rparr>\<rparr>)"
proof -
  have "\<not> minimumFound (m_internals det) (- 1)"
    by (simp add: minimumFound_def word_sle_eq)
  moreover from assms(2) have "\<not> maximumFound (m_internals det) (- 1)"
    by (simp add: maximumFound_def word_sle_eq word_sless_alt)
  ultimately show ?thesis using assms(1)
    by (simp add: detect_def detect_branches_none Let_def)
qed

lemma rising_run:
  "extremaCounter (m_internals det) = 0 \<Longrightarrow> 0 \<le>s lastDirection (m_internals det) \<Longrightarrow>
   \<forall>x\<in>set xs. snd x = 1 \<Longrightarrow> True \<notin> set (detect_all det xs)"
proof (induction xs arbitrary: det)
  case Nil
  then show ?case by simp
next
  case (Cons x xs)
  obtain p where x: "x = (p, 1)" using Cons.prems(3) by (cases x) simp
  let ?det' = "det\<lparr>m_internals := (m_internals det)\<lparr>lastDirection := 1\<rparr>\<rparr>"
  have step: "detect det p 1 = (False, ?det')"
    using Cons.prems(1,2) by (rule rising_step)
  have "True \<notin> set (detect_all ?det' xs)"
    using Cons.prems by (intro Cons.IH) (simp_all add: word_sle_eq)
  with step x show ?case by simp
qed

lemma falling_run:
  "extremaCounter (m_internals det) = 0 \<Longrightarrow> lastDirection (m_internals det) \<le>s 0 \<Longrightarrow>
   \<forall>x\<in>set xs. snd x = - 1 \<Longrightarrow> True \<notin> set (detect_all det xs)"
proof (induction xs arbitrary: det)
  case Nil
  then show ?case by simp
next
  case (Cons x xs)
  obtain p where x: "x = (p, - 1)" using Cons.prems(3) by (cases x) simp
  let ?det' = "det\<lparr>m_internals := (m_internals det)\<lparr>lastDirection := - 1\<rparr>\<rparr>"
  have step: "detect det p (- 1) = (False, ?det')"
    using Cons.prems(1,2) by (rule falling_step)
  have "True \<notin> set (detect_all ?det' xs)"
    using Cons.prems by (intro Cons.IH) (simp_all add: word_sle_eq)
  with step x show ?case by simp
qed

text \<open>
  C7: on a freshly constructed detector, with any \<open>sensitivity\<close> and
  \<open>smootherThreshold\<close>, a sample sequence whose direction is \<open>+1\<close> on every call, or
  \<open>-1\<close> on every call, never makes \<open>detect\<close> return true, whatever the positions.
\<close>

theorem monotonic_input_never_detected:
  "m_internals det = internals_default \<Longrightarrow>
   (\<forall>x\<in>set xs. snd x = 1) \<or> (\<forall>x\<in>set xs. snd x = - 1) \<Longrightarrow>
   True \<notin> set (detect_all det xs)"
proof -
  assume fresh: "m_internals det = internals_default"
    and mono: "(\<forall>x\<in>set xs. snd x = 1) \<or> (\<forall>x\<in>set xs. snd x = - 1)"
  from fresh have z: "extremaCounter (m_internals det) = 0"
    "0 \<le>s lastDirection (m_internals det)" "lastDirection (m_internals det) \<le>s 0"
    by (simp_all add: internals_default_def)
  from mono show ?thesis
    using rising_run [OF z(1,2)] falling_run [OF z(1,3)] by blast
qed

theorem monotonic_input_never_detected_witness:
  "m_internals (setSensitivity 0 OscillatorDetector_new) = internals_default \<and>
   map snd [(1 :: int64_t, 1 :: int_t), (2, 1), (3, 1)] = [1, 1, 1] \<and>
   True \<notin> set (detect_all (setSensitivity 0 OscillatorDetector_new) [(1, 1), (2, 1), (3, 1)]) \<and>
   map snd [(3 :: int64_t, - 1 :: int_t), (2, - 1), (1, - 1)] = [- 1, - 1, - 1] \<and>
   True \<notin> set (detect_all (setSensitivity 0 OscillatorDetector_new)
                  [(3, - 1), (2, - 1), (1, - 1)])"
proof -
  have fresh: "m_internals (setSensitivity 0 OscillatorDetector_new) = internals_default"
    by (simp add: setSensitivity_def OscillatorDetector_new_def)
  have up: "\<forall>x\<in>set [(1 :: int64_t, 1 :: int_t), (2, 1), (3, 1)]. snd x = 1"
    by simp
  have down: "\<forall>x\<in>set [(3 :: int64_t, - 1 :: int_t), (2, - 1), (1, - 1)]. snd x = - 1"
    by simp
  have lists:
    "map snd [(1 :: int64_t, 1 :: int_t), (2, 1), (3, 1)] = [1, 1, 1]"
    "map snd [(3 :: int64_t, - 1 :: int_t), (2, - 1), (1, - 1)] = [- 1, - 1, - 1]"
    by simp_all
  from monotonic_input_never_detected [OF fresh disjI1 [OF up]]
    monotonic_input_never_detected [OF fresh disjI2 [OF down]] fresh lists
  show ?thesis by blast
qed

section \<open>Parameter access\<close>

text \<open>
  C8: for every detector and every 8-bit value \<open>s\<close>, \<open>getSensitivity\<close> after
  \<open>setSensitivity s\<close> gives \<open>s\<close>, and the setter leaves the six internal fields as
  they were.
\<close>

theorem setSensitivity_getSensitivity:
  "getSensitivity (setSensitivity s det) = s \<and>
   m_internals (setSensitivity s det) = m_internals det"
  by (simp add: getSensitivity_def setSensitivity_def)

section \<open>Monotonicity of the reference positions\<close>

lemma detect_branches_positions:
  assumes "detect_branches det p d = (i', r')"
  shows "(maxFoundPos i' = maxFoundPos (m_internals det) \<or>
          (maxFoundPos (m_internals det) \<le>s p \<and> maxFoundPos i' = p)) \<and>
         (minFoundPos i' = minFoundPos (m_internals det) \<or>
          (p \<le>s minFoundPos (m_internals det) \<and> minFoundPos i' = p))"
proof (cases "maximumFound (m_internals det) d")
  case True
  with assms have "maximum_branch (m_params det) p (m_internals det, False) = (i', r')"
    by (simp add: detect_branches_maximum)
  from maximum_branch_max_side [OF this] maximum_branch_min_side [OF this]
  show ?thesis by blast
next
  case nomax: False
  show ?thesis
  proof (cases "minimumFound (m_internals det) d")
    case True
    with assms have "minimum_branch (m_params det) p (m_internals det, False) = (i', r')"
      by (simp add: detect_branches_minimum)
    from minimum_branch_min_side [OF this] minimum_branch_max_side [OF this]
    show ?thesis by blast
  next
    case False
    with nomax assms show ?thesis by (simp add: detect_branches_none)
  qed
qed

lemma detect_positions:
  "(maxFoundPos (m_internals (snd (detect det p d))) = maxFoundPos (m_internals det) \<or>
    (maxFoundPos (m_internals det) \<le>s p \<and>
     maxFoundPos (m_internals (snd (detect det p d))) = p) \<or>
    (detect_reset det p d \<and>
     maxFoundPos (m_internals (snd (detect det p d))) = INT64_MIN)) \<and>
   (minFoundPos (m_internals (snd (detect det p d))) = minFoundPos (m_internals det) \<or>
    (p \<le>s minFoundPos (m_internals det) \<and>
     minFoundPos (m_internals (snd (detect det p d))) = p) \<or>
    (detect_reset det p d \<and>
     minFoundPos (m_internals (snd (detect det p d))) = INT64_MAX))"
proof (cases "detect_reset det p d")
  case True
  then show ?thesis by (simp add: detect_internals internals_default_def)
next
  case False
  obtain i' r' where br: "detect_branches det p d = (i', r')"
    by (cases "detect_branches det p d")
  from detect_branches_positions [OF br] False br show ?thesis
    by (simp add: detect_internals)
qed

lemma no_reset_positions:
  "no_reset det xs \<Longrightarrow>
   maxFoundPos (m_internals det) \<le>s maxFoundPos (m_internals (detect_final det xs)) \<and>
   minFoundPos (m_internals (detect_final det xs)) \<le>s minFoundPos (m_internals det)"
proof (induction xs arbitrary: det)
  case Nil
  then show ?case by simp
next
  case (Cons x xs)
  obtain p d where x: "x = (p, d)" by (cases x)
  let ?det' = "snd (detect det p d)"
  from Cons.prems x have nr: "\<not> detect_reset det p d" and rest: "no_reset ?det' xs"
    by simp_all
  from detect_positions [of det p d] nr
  have step: "maxFoundPos (m_internals det) \<le>s maxFoundPos (m_internals ?det') \<and>
              minFoundPos (m_internals ?det') \<le>s minFoundPos (m_internals det)"
    by auto
  from Cons.IH [OF rest] step x show ?case
    by (auto simp add: word_sle_eq)
qed

text \<open>
  C10: every call leaves \<open>maxFoundPos\<close> unchanged, assigns it the position of the call
  where \<open>maxFoundPos \<le> position\<close>, or resets it to \<open>INT64_MIN\<close>; \<open>minFoundPos\<close> stays,
  is assigned a position with \<open>position \<le> minFoundPos\<close>, or resets to \<open>INT64_MAX\<close>.
  Hence over any run of calls without a reset \<open>maxFoundPos\<close> does not decrease and
  \<open>minFoundPos\<close> does not increase.
\<close>

theorem found_positions_monotone:
  "(maxFoundPos (m_internals (snd (detect det p d))) = maxFoundPos (m_internals det) \<or>
    (maxFoundPos (m_internals det) \<le>s p \<and>
     maxFoundPos (m_internals (snd (detect det p d))) = p) \<or>
    (detect_reset det p d \<and>
     maxFoundPos (m_internals (snd (detect det p d))) = INT64_MIN)) \<and>
   (minFoundPos (m_internals (snd (detect det p d))) = minFoundPos (m_internals det) \<or>
    (p \<le>s minFoundPos (m_internals det) \<and>
     minFoundPos (m_internals (snd (detect det p d))) = p) \<or>
    (detect_reset det p d \<and>
     minFoundPos (m_internals (snd (detect det p d))) = INT64_MAX)) \<and>
   (no_reset det xs \<longrightarrow>
     maxFoundPos (m_internals det) \<le>s maxFoundPos (m_internals (detect_final det xs)) \<and>
     minFoundPos (m_internals (detect_final det xs)) \<le>s minFoundPos (m_internals det))"
  using detect_positions [of det p d] no_reset_positions [of det xs] by blast

theorem found_positions_monotone_witness:
  "no_reset peak_then_trough [(12, - 1), (3, 1)] \<and>
   maxFoundPos (m_internals peak_then_trough) = 10 \<and>
   minFoundPos (m_internals peak_then_trough) = 5 \<and>
   10 \<le>s maxFoundPos (m_internals (detect_final peak_then_trough [(12, - 1), (3, 1)])) \<and>
   minFoundPos (m_internals (detect_final peak_then_trough [(12, - 1), (3, 1)])) \<le>s 5"
proof -
  have nr: "no_reset peak_then_trough [(12, - 1), (3, 1)]"
    by (simp add: concrete_defs)
  have before: "maxFoundPos (m_internals peak_then_trough) = 10"
    "minFoundPos (m_internals peak_then_trough) = 5"
    unfolding peak_then_trough_state by simp_all
  from found_positions_monotone [of peak_then_trough 0 0 "[(12, - 1), (3, 1)]"] nr
  have "maxFoundPos (m_internals peak_then_trough)
          \<le>s maxFoundPos (m_internals (detect_final peak_then_trough [(12, - 1), (3, 1)])) \<and>
        minFoundPos (m_internals (detect_final peak_then_trough [(12, - 1), (3, 1)]))
          \<le>s minFoundPos (m_internals peak_then_trough)"
    by blast
  with nr before show ?thesis by metis
qed

end
